theory Spec2Isabelle
  imports Complex_Main
begin

section \<open>Data model of the animated floating action button\<close>

text \<open>
  The component is a function of its props, of two pieces of component state
  (\<open>textWidth\<close>, \<open>textHeight\<close>) and of two globals of the host framework
  (\<open>Platform.OS\<close>, \<open>I18nManager.isRTL\<close>). JavaScript numbers are modelled as
  exact reals; \<open>Math.ceil\<close> is the ceiling of a real.
\<close>

datatype AnimatedFABIconMode = Static | Dynamic

datatype AnimatedFABAnimateFrom = FromLeft | FromRight

datatype PlatformOS = Ios | Android | Macos | Windows | Web

record ThemeAnimation =
  scale :: real

text \<open>
  The fields of \<open>Theme\<close> that the components read (\<open>colors\<close> is read with
  optional chaining, so it may be absent).
\<close>

record ThemeColors =
  primary :: string
  text' :: string

record Theme =
  isV3 :: bool
  animation :: ThemeAnimation
  colors :: "ThemeColors option"
  roundness :: real
  md :: "string \<Rightarrow> string"

text \<open>
  The props the component destructures. An optional prop is an \<open>option\<close>;
  \<open>None\<close> is JavaScript's \<open>undefined\<close>, for which the destructuring default
  applies.
\<close>

record Props =
  label :: string
  disabled :: "bool option"
  visible :: "bool option"
  uppercase :: "bool option"
  animateFrom :: "AnimatedFABAnimateFrom option"
  extended :: "bool option"
  iconMode :: "AnimatedFABIconMode option"
  theme :: Theme

record Globals =
  OS :: PlatformOS
  isRTL :: bool

text \<open>The two \<open>useState\<close> cells of the component.\<close>

record FABState =
  textWidth :: real
  textHeight :: real

definition SIZE :: real where
  "SIZE = 56"

definition SCALE :: real where
  "SCALE = 0.9"

subsection \<open>Destructuring defaults\<close>

definition visible_of :: "Props \<Rightarrow> bool" where
  "visible_of p = (case visible p of None \<Rightarrow> True | Some v \<Rightarrow> v)"

definition uppercase_of :: "Props \<Rightarrow> bool" where
  "uppercase_of p = (case uppercase p of None \<Rightarrow> \<not> isV3 (theme p) | Some v \<Rightarrow> v)"

definition animateFrom_of :: "Props \<Rightarrow> AnimatedFABAnimateFrom" where
  "animateFrom_of p = (case animateFrom p of None \<Rightarrow> FromRight | Some d \<Rightarrow> d)"

definition extended_of :: "Props \<Rightarrow> bool" where
  "extended_of p = (case extended p of None \<Rightarrow> False | Some v \<Rightarrow> v)"

definition iconMode_of :: "Props \<Rightarrow> AnimatedFABIconMode" where
  "iconMode_of p = (case iconMode p of None \<Rightarrow> Dynamic | Some m \<Rightarrow> m)"

subsection \<open>Values derived in the component body\<close>

definition isIOS :: "Globals \<Rightarrow> bool" where
  "isIOS g = (OS g = Ios)"

definition isAnimatedFromRight :: "Props \<Rightarrow> bool" where
  "isAnimatedFromRight p = (animateFrom_of p = FromRight)"

definition isIconStatic :: "Props \<Rightarrow> bool" where
  "isIconStatic p = (iconMode_of p = Static)"

definition borderRadius :: "Props \<Rightarrow> real" where
  "borderRadius p = SIZE / (if isV3 (theme p) then 3.5 else 2)"

definition extendedWidth :: "Props \<Rightarrow> FABState \<Rightarrow> real" where
  "extendedWidth p st = textWidth st + SIZE + borderRadius p"

definition distance :: "Props \<Rightarrow> FABState \<Rightarrow> real" where
  "distance p st =
     (if isAnimatedFromRight p then - textWidth st - borderRadius p
      else textWidth st + borderRadius p)"

text \<open>
  \<open>propForDirection\<close> returns its argument, or reverses it in place and returns
  it. Every call site passes a fresh array literal, so the in-place reversal is
  observable only through the returned array.
\<close>

definition propForDirection :: "Props \<Rightarrow> 'a list \<Rightarrow> 'a list" where
  "propForDirection p xs = (if isAnimatedFromRight p then xs else rev xs)"

section \<open>Text measurement\<close>

record TextLayoutLine =
  width :: real
  height :: real

record TextLayoutEventData =
  lines :: "TextLayoutLine list"

record NativeSyntheticEvent =
  nativeEvent :: TextLayoutEventData

text \<open>
  Reading \<open>nativeEvent.lines[0].width\<close> when \<open>lines\<close> is empty is a property
  access on \<open>undefined\<close>, a \<open>TypeError\<close>; invalid interpolation ranges are
  rejected by the host framework.
\<close>

datatype error = TypeError | InvalidRange

text \<open>
  \<open>onTextLayout\<close>: the two setters are applied in the order of the source; the
  handler compares against the state of the render that created it.
\<close>

definition onTextLayout ::
  "Globals \<Rightarrow> FABState \<Rightarrow> NativeSyntheticEvent \<Rightarrow> error + FABState" where
  "onTextLayout g st ev =
     (case lines (nativeEvent ev) of
        [] \<Rightarrow> Inl TypeError
      | l # _ \<Rightarrow>
          (let currentWidth = real_of_int \<lceil>width l\<rceil>;
               currentHeight = real_of_int \<lceil>height l\<rceil>
           in if currentWidth \<noteq> textWidth st \<or> currentHeight \<noteq> textHeight st then
                (let st1 = st\<lparr>textHeight := currentHeight\<rparr>
                 in if isIOS g then Inr (st1\<lparr>textWidth := currentWidth - 12\<rparr>)
                    else Inr (st1\<lparr>textWidth := currentWidth\<rparr>))
              else Inr st))"

section \<open>Timed animations started by the effects\<close>

datatype EasingFunction = Linear

text \<open>
  The configuration object passed to \<open>Animated.timing\<close>; \<open>easing = None\<close> is a
  configuration without an \<open>easing\<close> key.
\<close>

record TimingAnimationConfig =
  toValue :: real
  duration :: real
  useNativeDriver :: bool
  easing :: "EasingFunction option"

text \<open>The effect on \<open>visibility\<close> (dependencies \<open>visible\<close>, \<open>scale\<close>).\<close>

definition visibility_effect :: "Props \<Rightarrow> TimingAnimationConfig" where
  "visibility_effect p =
     (if visible_of p then
        \<lparr>toValue = 1, duration = 200 * scale (animation (theme p)),
         useNativeDriver = True, easing = None\<rparr>
      else
        \<lparr>toValue = 0, duration = 150 * scale (animation (theme p)),
         useNativeDriver = True, easing = None\<rparr>)"

text \<open>The effect on \<open>animFAB\<close> (dependencies \<open>scale\<close>, \<open>distance\<close>, \<open>extended\<close>).\<close>

definition animFAB_effect :: "Props \<Rightarrow> FABState \<Rightarrow> TimingAnimationConfig" where
  "animFAB_effect p st =
     \<lparr>toValue = (if \<not> extended_of p then 0 else distance p st),
      duration = 150 * scale (animation (theme p)),
      useNativeDriver = True, easing = Some Linear\<rparr>"

text \<open>
  An \<open>Animated.Value\<close> held in a ref: the number it was constructed with and the
  configuration of the timed animation most recently started on it (starting an
  animation on a value replaces the one in progress).
\<close>

record AnimatedValue =
  initial :: real
  running :: "TimingAnimationConfig option"

text \<open>
  A mounted component instance: the two refs, the state cells, and for each
  effect the dependency values of its last run (\<open>None\<close> before the first run).
  The refs themselves also stand in the dependency arrays; they never change.
\<close>

record Instance =
  visibility :: AnimatedValue
  animFAB :: AnimatedValue
  state :: FABState
  visibility_deps :: "(bool \<times> real) option"
  animFAB_deps :: "(real \<times> real \<times> bool) option"

text \<open>
  The hooks at the first render: \<open>useRef\<close> and \<open>useState\<close> keep the value of
  their first call, so \<open>visibility\<close> is constructed from the \<open>visible\<close> of the
  mounting props.
\<close>

definition first_render :: "Props \<Rightarrow> Instance" where
  "first_render p =
     \<lparr>visibility = \<lparr>initial = (if visible_of p then 1 else 0), running = None\<rparr>,
      animFAB = \<lparr>initial = 0, running = None\<rparr>,
      state = \<lparr>textWidth = 0, textHeight = 0\<rparr>,
      visibility_deps = None,
      animFAB_deps = None\<rparr>"

text \<open>
  After a render an effect runs when it has not run before or one of its
  dependencies differs from the last run.
\<close>

definition run_visibility_effect :: "Props \<Rightarrow> Instance \<Rightarrow> Instance" where
  "run_visibility_effect p i =
     (let deps = (visible_of p, scale (animation (theme p)))
      in if visibility_deps i = Some deps then i
         else i\<lparr>visibility := (visibility i)\<lparr>running := Some (visibility_effect p)\<rparr>,
                visibility_deps := Some deps\<rparr>)"

definition run_animFAB_effect :: "Props \<Rightarrow> Instance \<Rightarrow> Instance" where
  "run_animFAB_effect p i =
     (let deps = (scale (animation (theme p)), distance p (state i), extended_of p)
      in if animFAB_deps i = Some deps then i
         else i\<lparr>animFAB := (animFAB i)\<lparr>running := Some (animFAB_effect p (state i))\<rparr>,
                animFAB_deps := Some deps\<rparr>)"

section \<open>Interpolated styles\<close>

record InterpolationConfig =
  inputRange :: "real list"
  outputRange :: "real list"

text \<open>
  Modelled from the spec: \<open>Animated.Value.interpolate\<close> belongs to the host
  framework and is not among the sources; the spec names it only as value
  interpolation. The model is the framework's piecewise-linear interpolation
  with its defaults (linear easing, extrapolation by extending the outer
  segments): the input range must have at least two points, as many as the
  output range, and be non-decreasing; \<open>findRange\<close> picks the segment.
\<close>

function findRange_loop :: "nat \<Rightarrow> real \<Rightarrow> real list \<Rightarrow> nat" where
  "findRange_loop i input rng =
     (if i < length rng - 1 then
        (if rng ! i \<ge> input then i else findRange_loop (i + 1) input rng)
      else i)"
  by pat_completeness auto
termination
  by (relation "measure (\<lambda>(i, input, rng). length rng - i)") auto

definition findRange :: "real \<Rightarrow> real list \<Rightarrow> nat" where
  "findRange input rng = findRange_loop 1 input rng - 1"

definition interpolate_segment :: "real \<Rightarrow> real \<Rightarrow> real \<Rightarrow> real \<Rightarrow> real \<Rightarrow> real" where
  "interpolate_segment input inputMin inputMax outputMin outputMax =
     (if outputMin = outputMax then outputMin
      else if inputMin = inputMax then (if input \<le> inputMin then outputMin else outputMax)
      else (input - inputMin) / (inputMax - inputMin) * (outputMax - outputMin) + outputMin)"

definition interpolate :: "InterpolationConfig \<Rightarrow> real \<Rightarrow> error + real" where
  "interpolate cfg input =
     (if length (inputRange cfg) < 2 \<or> length (outputRange cfg) < 2
         \<or> length (inputRange cfg) \<noteq> length (outputRange cfg)
         \<or> \<not> sorted (inputRange cfg)
      then Inl InvalidRange
      else (let r = findRange input (inputRange cfg)
            in Inr (interpolate_segment input
                      (inputRange cfg ! r) (inputRange cfg ! (r + 1))
                      (outputRange cfg ! r) (outputRange cfg ! (r + 1)))))"

subsection \<open>The interpolations and inline styles of the rendered tree\<close>

definition surface_elevation :: "Globals \<Rightarrow> real" where
  "surface_elevation g = (if isIOS g then 6 else 0)"

definition fab_scaleY :: "Props \<Rightarrow> FABState \<Rightarrow> InterpolationConfig" where
  "fab_scaleY p st =
     \<lparr>inputRange = propForDirection p [distance p st, 0],
      outputRange = propForDirection p [SCALE, 1]\<rparr>"

definition extended_shadow_opacity :: "Props \<Rightarrow> FABState \<Rightarrow> InterpolationConfig" where
  "extended_shadow_opacity p st =
     \<lparr>inputRange = propForDirection p [distance p st, 0.9 * distance p st, 0],
      outputRange = propForDirection p [1, 0.15, 0]\<rparr>"

definition circle_shadow_opacity :: "Props \<Rightarrow> FABState \<Rightarrow> InterpolationConfig" where
  "circle_shadow_opacity p st =
     \<lparr>inputRange = propForDirection p [distance p st, 0.9 * distance p st, 0],
      outputRange = propForDirection p [0, 0.85, 1]\<rparr>"

definition circle_shadow_borderRadius :: "Props \<Rightarrow> FABState \<Rightarrow> InterpolationConfig" where
  "circle_shadow_borderRadius p st =
     \<lparr>inputRange = propForDirection p [distance p st, 0],
      outputRange = propForDirection p [SIZE / (extendedWidth p st / SIZE), borderRadius p]\<rparr>"

datatype LabelSide = SideRight | SideLeft

definition label_side :: "Globals \<Rightarrow> Props \<Rightarrow> LabelSide" where
  "label_side g p = (if isAnimatedFromRight p \<or> isRTL g then SideRight else SideLeft)"

definition label_offset :: "Props \<Rightarrow> FABState \<Rightarrow> real" where
  "label_offset p st =
     (if isIconStatic p
      then textWidth st - SIZE + borderRadius p / (if isV3 (theme p) then 1 else 2)
      else borderRadius p)"

definition label_top :: "FABState \<Rightarrow> real" where
  "label_top st = - SIZE / 2 - textHeight st / 2"

definition label_opacity :: "Props \<Rightarrow> FABState \<Rightarrow> InterpolationConfig" where
  "label_opacity p st =
     \<lparr>inputRange = propForDirection p [distance p st, 0.7 * distance p st, 0],
      outputRange = propForDirection p [1, 0, 0]\<rparr>"

definition label_translateX :: "Props \<Rightarrow> FABState \<Rightarrow> InterpolationConfig" where
  "label_translateX p st =
     \<lparr>inputRange = propForDirection p [distance p st, 0],
      outputRange = propForDirection p [0, SIZE]\<rparr>"

text \<open>
  The styles the component body derives for one render. \<open>getCombinedStyles\<close>
  lives in a module outside the sources and is a parameter, applied to the
  arguments the component passes (the \<open>animFAB\<close> ref aside, which never
  changes). Colours come from \<open>getFABColors\<close>, also outside the sources, and
  the static style sheet and the caller's \<open>style\<close> are left out.
\<close>

record 'c DerivedStyles =
  s_elevation :: real
  s_borderRadius :: real
  s_disabled :: bool
  s_scaleY :: InterpolationConfig
  s_extendedWidth :: real
  s_extended_shadow_opacity :: InterpolationConfig
  s_circle_shadow_opacity :: InterpolationConfig
  s_circle_shadow_borderRadius :: InterpolationConfig
  s_combinedStyles :: 'c
  s_label_side :: LabelSide
  s_label_offset :: real
  s_label_minWidth :: real
  s_label_top :: real
  s_label_opacity :: InterpolationConfig
  s_label_translateX :: InterpolationConfig
  s_label_uppercase :: bool

definition derived_styles ::
  "(bool \<Rightarrow> bool \<Rightarrow> real \<Rightarrow> 'c) \<Rightarrow> Globals \<Rightarrow> Props \<Rightarrow> FABState \<Rightarrow> 'c DerivedStyles" where
  "derived_styles getCombinedStyles g p st =
     \<lparr>s_elevation = surface_elevation g,
      s_borderRadius = borderRadius p,
      s_disabled = (disabled p = Some True),
      s_scaleY = fab_scaleY p st,
      s_extendedWidth = extendedWidth p st,
      s_extended_shadow_opacity = extended_shadow_opacity p st,
      s_circle_shadow_opacity = circle_shadow_opacity p st,
      s_circle_shadow_borderRadius = circle_shadow_borderRadius p st,
      s_combinedStyles =
        getCombinedStyles (isAnimatedFromRight p) (isIconStatic p) (distance p st),
      s_label_side = label_side g p,
      s_label_offset = label_offset p st,
      s_label_minWidth = textWidth st,
      s_label_top = label_top st,
      s_label_opacity = label_opacity p st,
      s_label_translateX = label_translateX p st,
      s_label_uppercase = uppercase_of p\<rparr>"

text \<open>
  The targets of the two animated values for the current props and state: what
  the effects pass as \<open>toValue\<close>.
\<close>

definition visibility_target :: "Props \<Rightarrow> real" where
  "visibility_target p = toValue (visibility_effect p)"

definition animFAB_target :: "Props \<Rightarrow> FABState \<Rightarrow> real" where
  "animFAB_target p st = toValue (animFAB_effect p st)"

section \<open>Rendering a mounted instance\<close>

text \<open>
  The interpolations the component body creates while it renders, in the order
  of the source. The host checks the ranges when an interpolation is created
  and throws on a range it rejects, the same check that \<open>interpolate\<close> makes.
\<close>

definition body_interpolations :: "Props \<Rightarrow> FABState \<Rightarrow> InterpolationConfig list" where
  "body_interpolations p st =
     [fab_scaleY p st, extended_shadow_opacity p st, circle_shadow_opacity p st,
      circle_shadow_borderRadius p st, label_opacity p st, label_translateX p st]"

definition checkValidRanges :: "InterpolationConfig \<Rightarrow> bool" where
  "checkValidRanges cfg =
     (\<not> (length (inputRange cfg) < 2 \<or> length (outputRange cfg) < 2
         \<or> length (inputRange cfg) \<noteq> length (outputRange cfg)
         \<or> \<not> sorted (inputRange cfg)))"

text \<open>
  One render: the body runs first and throws when one of its interpolations is
  rejected, in which case no effect runs; otherwise the effects run after it.
  What \<open>getCombinedStyles\<close> and \<open>getFABColors\<close> do inside is outside the
  sources and not part of the render.
\<close>

definition render :: "Props \<Rightarrow> Instance \<Rightarrow> error + Instance" where
  "render p i =
     (if list_all checkValidRanges (body_interpolations p (state i))
      then Inr (run_animFAB_effect p (run_visibility_effect p i))
      else Inl InvalidRange)"

definition mount :: "Props \<Rightarrow> error + Instance" where
  "mount p = render p (first_render p)"

text \<open>
  What happens to a mounted instance: the parent renders it with new props, or
  the text is measured, which runs \<open>onTextLayout\<close> and renders again with the
  same props. An exception in the handler or in a render ends the run.
\<close>

datatype Event = Rerender Props | TextLayout NativeSyntheticEvent

fun step :: "Globals \<Rightarrow> Props \<times> Instance \<Rightarrow> Event \<Rightarrow> error + Props \<times> Instance" where
  "step g (p, i) (Rerender p') =
     (case render p' i of Inl e \<Rightarrow> Inl e | Inr i' \<Rightarrow> Inr (p', i'))"
| "step g (p, i) (TextLayout ev) =
     (case onTextLayout g (state i) ev of
        Inl e \<Rightarrow> Inl e
      | Inr st' \<Rightarrow>
          (case render p (i\<lparr>state := st'\<rparr>) of Inl e \<Rightarrow> Inl e | Inr i' \<Rightarrow> Inr (p, i')))"

fun run :: "Globals \<Rightarrow> Props \<times> Instance \<Rightarrow> Event list \<Rightarrow> error + Props \<times> Instance" where
  "run g c [] = Inr c"
| "run g c (e # es) = (case step g c e of Inl err \<Rightarrow> Inl err | Inr c' \<Rightarrow> run g c' es)"

text \<open>The life of an instance: it is mounted with props \<open>p0\<close>, then the events happen.\<close>

definition mounted :: "Globals \<Rightarrow> Props \<Rightarrow> Event list \<Rightarrow> error + Props \<times> Instance" where
  "mounted g p0 es = (case mount p0 of Inl e \<Rightarrow> Inl e | Inr i0 \<Rightarrow> run g (p0, i0) es)"

section \<open>The drawer item\<close>

text \<open>
  The props of \<open>DrawerItem\<close> that decide its colours and margins. The type
  \<open>IconSource\<close> is declared outside the sources and is the type parameter
  \<open>'icon\<close>; the component only tests the prop for truthiness, so the test on
  a present icon is the parameter \<open>truthy\<close>. The usage in the component's
  documentation gives the icon by name, a string, which is falsy when empty. \<open>color\<close> stands for the colour
  library's \<open>color(c).alpha(a).rgb().string()\<close>.
\<close>

record 'icon DrawerItemProps =
  di_label :: string
  di_icon :: "'icon option"
  di_active :: "bool option"
  di_theme :: Theme

definition di_icon_truthy :: "('icon \<Rightarrow> bool) \<Rightarrow> 'icon DrawerItemProps \<Rightarrow> bool" where
  "di_icon_truthy truthy p = (case di_icon p of None \<Rightarrow> False | Some i \<Rightarrow> truthy i)"

definition di_active_truthy :: "'icon DrawerItemProps \<Rightarrow> bool" where
  "di_active_truthy p = (di_active p = Some True)"

definition DrawerItem_backgroundColor ::
  "(string option \<Rightarrow> real \<Rightarrow> string) \<Rightarrow> 'icon DrawerItemProps \<Rightarrow> string" where
  "DrawerItem_backgroundColor color p =
     (if di_active_truthy p then
        (if isV3 (di_theme p) then md (di_theme p) ''md.sys.color.secondary-container''
         else color (map_option primary (colors (di_theme p))) 0.12)
      else ''transparent'')"

definition DrawerItem_contentColor ::
  "(string option \<Rightarrow> real \<Rightarrow> string) \<Rightarrow> 'icon DrawerItemProps \<Rightarrow> string option" where
  "DrawerItem_contentColor color p =
     (if di_active_truthy p then
        (if isV3 (di_theme p)
         then Some (md (di_theme p) ''md.sys.color.on-secondary-container'')
         else map_option primary (colors (di_theme p)))
      else if isV3 (di_theme p)
        then Some (md (di_theme p) ''md.sys.color.on-surface-variant'')
        else Some (color (map_option text' (colors (di_theme p))) 0.68))"

definition DrawerItem_labelMargin :: "('icon \<Rightarrow> bool) \<Rightarrow> 'icon DrawerItemProps \<Rightarrow> real" where
  "DrawerItem_labelMargin truthy p =
     (if di_icon_truthy truthy p then (if isV3 (di_theme p) then 12 else 32) else 0)"

section \<open>Auxiliary definitions for the proofs\<close>

text \<open>
  The state of a mounted instance right after a render with props \<open>p\<close>, for an
  instance mounted with props \<open>p0\<close>: each effect has run with the current
  dependency values and the animation it started is the one in progress.
\<close>

definition effects_current :: "Props \<Rightarrow> Props \<times> Instance \<Rightarrow> bool" where
  "effects_current p0 c =
     (case c of (p, i) \<Rightarrow>
        visibility_deps i = Some (visible_of p, scale (animation (theme p)))
      \<and> running (visibility i) = Some (visibility_effect p)
      \<and> initial (visibility i) = (if visible_of p0 then 1 else 0)
      \<and> animFAB_deps i = Some (scale (animation (theme p)), distance p (state i), extended_of p)
      \<and> running (animFAB i) = Some (animFAB_effect p (state i))
      \<and> initial (animFAB i) = 0)"

text \<open>The host measures text lines of non-negative width.\<close>

fun measured_nonneg :: "Event \<Rightarrow> bool" where
  "measured_nonneg (Rerender p) = True"
| "measured_nonneg (TextLayout ev) = list_all (\<lambda>l. 0 \<le> width l) (lines (nativeEvent ev))"

text \<open>A measurement reports at least one line.\<close>

fun measured_line :: "Event \<Rightarrow> bool" where
  "measured_line (Rerender p) = True"
| "measured_line (TextLayout ev) = (lines (nativeEvent ev) \<noteq> [])"

subsection \<open>Concrete inputs\<close>

text \<open>
  The props with which the example screen renders the button (visible,
  extended, label ``New Message'', controls at their initial values), under a
  version 3 theme with animation scale 1, and one measurement of the label.
\<close>

definition example_theme :: Theme where
  "example_theme =
     \<lparr>isV3 = True, animation = \<lparr>scale = 1\<rparr>, colors = None, roundness = 4,
      md = (\<lambda>key. key)\<rparr>"

definition example_props :: Props where
  "example_props =
     \<lparr>label = ''New Message'', disabled = None, visible = Some True, uppercase = None,
      animateFrom = Some FromRight, extended = Some True, iconMode = Some Static,
      theme = example_theme\<rparr>"

definition example_globals :: Globals where
  "example_globals = \<lparr>OS = Android, isRTL = False\<rparr>"

definition example_event :: NativeSyntheticEvent where
  "example_event = \<lparr>nativeEvent = \<lparr>lines = [\<lparr>width = 90.5, height = 17\<rparr>]\<rparr>\<rparr>"

definition example_state :: FABState where
  "example_state = \<lparr>textWidth = 91, textHeight = 17\<rparr>"

definition example_measured :: Instance where
  "example_measured =
     \<lparr>visibility = \<lparr>initial = 1, running = Some \<lparr>toValue = 1, duration = 200,
        useNativeDriver = True, easing = None\<rparr>\<rparr>,
      animFAB = \<lparr>initial = 0, running = Some \<lparr>toValue = - 107, duration = 150,
        useNativeDriver = True, easing = Some Linear\<rparr>\<rparr>,
      state = example_state,
      visibility_deps = Some (True, 1),
      animFAB_deps = Some (1, - 107, True)\<rparr>"

text \<open>
  The instance after the example props were rendered again with
  \<open>extended = false\<close>, and with \<open>visible = false\<close>.
\<close>

definition example_collapsed :: Instance where
  "example_collapsed =
     example_measured
       \<lparr>animFAB := \<lparr>initial = 0, running = Some \<lparr>toValue = 0, duration = 150,
          useNativeDriver = True, easing = Some Linear\<rparr>\<rparr>,
        animFAB_deps := Some (1, - 107, False)\<rparr>"

definition example_hidden :: Instance where
  "example_hidden =
     example_measured
       \<lparr>visibility := \<lparr>initial = 1, running = Some \<lparr>toValue = 0, duration = 150,
          useNativeDriver = True, easing = None\<rparr>\<rparr>,
        visibility_deps := Some (False, 1)\<rparr>"

text \<open>A measurement of negative width, which the host does not deliver.\<close>

definition negative_event :: NativeSyntheticEvent where
  "negative_event = \<lparr>nativeEvent = \<lparr>lines = [\<lparr>width = - 20, height = 17\<rparr>]\<rparr>\<rparr>"

text \<open>
  Concrete choices for the parameters: a \<open>getCombinedStyles\<close> that keeps its
  arguments, the truthiness of an icon given by name (a string is truthy unless
  empty), and a colour library that answers with one fixed colour string.
\<close>

definition example_getCombinedStyles :: "bool \<Rightarrow> bool \<Rightarrow> real \<Rightarrow> bool \<times> bool \<times> real" where
  "example_getCombinedStyles r s d = (r, s, d)"

definition example_truthy :: "string \<Rightarrow> bool" where
  "example_truthy s = (s \<noteq> [])"

definition example_color :: "string option \<Rightarrow> real \<Rightarrow> string" where
  "example_color c a = ''rgba(98, 0, 238, 0.12)''"

definition example_item :: "string DrawerItemProps" where
  "example_item =
     \<lparr>di_label = ''First Item'', di_icon = Some ''star'', di_active = None,
      di_theme = example_theme\<rparr>"

section \<open>Directions, icon modes and derived widths\<close>

lemma borderRadius_value:
  "borderRadius p = (if isV3 (theme p) then 16 else 28)"
  by (simp add: borderRadius_def SIZE_def)

text \<open>
  C3: \<open>animateFrom\<close> ranges over exactly the two values left and right and
  defaults to right; \<open>iconMode\<close> ranges over exactly the two values static and
  dynamic and defaults to dynamic.
\<close>

theorem directions_and_icon_modes:
  "(UNIV :: AnimatedFABAnimateFrom set) = {FromLeft, FromRight}
   \<and> FromLeft \<noteq> FromRight
   \<and> animateFrom_of (p\<lparr>animateFrom := None\<rparr>) = FromRight
   \<and> animateFrom_of (p\<lparr>animateFrom := Some d\<rparr>) = d
   \<and> (UNIV :: AnimatedFABIconMode set) = {Static, Dynamic}
   \<and> Static \<noteq> Dynamic
   \<and> iconMode_of (p\<lparr>iconMode := None\<rparr>) = Dynamic
   \<and> iconMode_of (p\<lparr>iconMode := Some m\<rparr>) = m"
proof -
  have "(UNIV :: AnimatedFABAnimateFrom set) = {FromLeft, FromRight}"
    using AnimatedFABAnimateFrom.exhaust by auto
  moreover have "(UNIV :: AnimatedFABIconMode set) = {Static, Dynamic}"
    using AnimatedFABIconMode.exhaust by auto
  ultimately show ?thesis
    by (simp add: animateFrom_of_def iconMode_of_def)
qed

text \<open>
  C4: the extended width is \<open>textWidth + 56 + borderRadius\<close>, where the border
  radius is \<open>56 / 3.5\<close> under a version 3 theme and \<open>56 / 2\<close> otherwise, for
  every measured text width.
\<close>

theorem extendedWidth_formula:
  "extendedWidth p st = textWidth st + 56 + borderRadius p
   \<and> borderRadius p = (if isV3 (theme p) then 56 / 3.5 else 56 / 2)"
  by (simp add: extendedWidth_def borderRadius_def SIZE_def)

text \<open>
  C5: \<open>propForDirection\<close> is the identity when animating from the right and list
  reversal when animating from the left, and the distance for the right direction
  is \<open>-(textWidth + borderRadius)\<close>, the negation of the distance for the left
  direction, \<open>textWidth + borderRadius\<close>.
\<close>

theorem direction_reversal_symmetry:
  "propForDirection (p\<lparr>animateFrom := Some FromRight\<rparr>) xs = xs
   \<and> propForDirection (p\<lparr>animateFrom := None\<rparr>) xs = xs
   \<and> propForDirection (p\<lparr>animateFrom := Some FromLeft\<rparr>) xs = rev xs
   \<and> distance (p\<lparr>animateFrom := Some FromRight\<rparr>) st
       = - distance (p\<lparr>animateFrom := Some FromLeft\<rparr>) st
   \<and> distance (p\<lparr>animateFrom := Some FromRight\<rparr>) st
       = - (textWidth st + borderRadius p)
   \<and> distance (p\<lparr>animateFrom := Some FromLeft\<rparr>) st
       = textWidth st + borderRadius p"
  by (simp add: propForDirection_def distance_def isAnimatedFromRight_def
      animateFrom_of_def borderRadius_def)

section \<open>The text measurement handler\<close>

lemma onTextLayout_no_lines:
  "lines (nativeEvent ev) = [] \<Longrightarrow> onTextLayout g st ev = Inl TypeError"
  by (simp add: onTextLayout_def)

text \<open>
  C9: for a measurement with a first line, \<open>onTextLayout\<close> leaves the state
  unchanged when the ceiling of the line's width equals the stored
  \<open>textWidth\<close> and the ceiling of its height equals the stored \<open>textHeight\<close>;
  otherwise it stores the ceiling of the height, and as width the ceiling of
  the width minus 12 on iOS and the ceiling of the width elsewhere.
\<close>

theorem onTextLayout_frame:
  assumes "lines (nativeEvent ev) = l # ls"
  shows "(real_of_int \<lceil>width l\<rceil> = textWidth st \<and> real_of_int \<lceil>height l\<rceil> = textHeight st
            \<longrightarrow> onTextLayout g st ev = Inr st)
       \<and> (\<not> (real_of_int \<lceil>width l\<rceil> = textWidth st
              \<and> real_of_int \<lceil>height l\<rceil> = textHeight st)
            \<longrightarrow> onTextLayout g st ev =
                  Inr (st\<lparr>textWidth := (if isIOS g then real_of_int \<lceil>width l\<rceil> - 12
                                         else real_of_int \<lceil>width l\<rceil>),
                          textHeight := real_of_int \<lceil>height l\<rceil>\<rparr>))"
  using assms by (auto simp: onTextLayout_def Let_def)

theorem onTextLayout_frame_witness:
  "lines (nativeEvent example_event) = [\<lparr>width = 90.5, height = 17\<rparr>]
   \<and> onTextLayout example_globals \<lparr>textWidth = 91, textHeight = 17\<rparr> example_event
       = Inr \<lparr>textWidth = 91, textHeight = 17\<rparr>
   \<and> onTextLayout example_globals \<lparr>textWidth = 0, textHeight = 0\<rparr> example_event
       = Inr \<lparr>textWidth = 91, textHeight = 17\<rparr>
   \<and> onTextLayout (example_globals\<lparr>OS := Ios\<rparr>) \<lparr>textWidth = 79, textHeight = 17\<rparr>
         example_event
       = Inr \<lparr>textWidth = 79, textHeight = 17\<rparr>
   \<and> onTextLayout (example_globals\<lparr>OS := Ios\<rparr>) \<lparr>textWidth = 0, textHeight = 0\<rparr>
         example_event
       = Inr \<lparr>textWidth = 79, textHeight = 17\<rparr>"
proof -
  have l: "lines (nativeEvent example_event) = [\<lparr>width = 90.5, height = 17\<rparr>]"
    by (simp add: example_event_def)
  show ?thesis
    using l
      onTextLayout_frame [OF l, of "\<lparr>textWidth = 91, textHeight = 17\<rparr>" example_globals]
      onTextLayout_frame [OF l, of "\<lparr>textWidth = 0, textHeight = 0\<rparr>" example_globals]
      onTextLayout_frame [OF l, of "\<lparr>textWidth = 79, textHeight = 17\<rparr>"
        "example_globals\<lparr>OS := Ios\<rparr>"]
      onTextLayout_frame [OF l, of "\<lparr>textWidth = 0, textHeight = 0\<rparr>"
        "example_globals\<lparr>OS := Ios\<rparr>"]
    by (simp add: example_globals_def isIOS_def)
qed

section \<open>The animations in progress after every render\<close>

lemma visibility_effect_cong:
  "visible_of p = visible_of p' \<Longrightarrow> scale (animation (theme p)) = scale (animation (theme p'))
   \<Longrightarrow> visibility_effect p = visibility_effect p'"
  by (simp add: visibility_effect_def)

lemma animFAB_effect_cong:
  "extended_of p = extended_of p' \<Longrightarrow> distance p st = distance p' st'
   \<Longrightarrow> scale (animation (theme p)) = scale (animation (theme p'))
   \<Longrightarrow> animFAB_effect p st = animFAB_effect p' st'"
  by (simp add: animFAB_effect_def)

subsection \<open>When a render throws\<close>

text \<open>The check at creation is the check \<open>interpolate\<close> makes.\<close>

lemma interpolate_rejects:
  "(interpolate cfg x = Inl InvalidRange) = (\<not> checkValidRanges cfg)"
  by (simp add: interpolate_def checkValidRanges_def Let_def)

text \<open>
  The ranges of the body are accepted exactly when \<open>textWidth + borderRadius\<close>
  is not negative, in either direction.
\<close>

lemma body_interpolations_valid:
  "list_all checkValidRanges (body_interpolations p st) = (0 \<le> textWidth st + borderRadius p)"
  by (auto simp: body_interpolations_def checkValidRanges_def fab_scaleY_def
      extended_shadow_opacity_def circle_shadow_opacity_def circle_shadow_borderRadius_def
      label_opacity_def label_translateX_def propForDirection_def distance_def)

lemma render_eq:
  "render p i =
     (if 0 \<le> textWidth (state i) + borderRadius p
      then Inr (run_animFAB_effect p (run_visibility_effect p i))
      else Inl InvalidRange)"
  by (simp add: render_def body_interpolations_valid)

lemma state_effects: "state (run_animFAB_effect p (run_visibility_effect p i)) = state i"
  by (simp add: run_visibility_effect_def run_animFAB_effect_def Let_def)

lemma state_render: "render p i = Inr i' \<Longrightarrow> state i' = state i"
  by (auto simp: render_eq state_effects split: if_splits)

lemma render_valid: "render p i = Inr i' \<Longrightarrow> 0 \<le> textWidth (state i') + borderRadius p"
  by (auto simp: render_eq state_effects split: if_splits)

lemma borderRadius_positive: "0 < borderRadius p"
  by (simp add: borderRadius_def SIZE_def)

lemma render_returns:
  "- 12 \<le> textWidth (state i) \<Longrightarrow> \<exists>i'. render p i = Inr i'"
  by (simp add: render_eq borderRadius_def SIZE_def)

lemma mount_returns: "\<exists>i. mount p = Inr i"
  by (simp add: mount_def render_eq first_render_def borderRadius_def SIZE_def)

subsection \<open>The effects are current after every render that returns\<close>

lemma effects_run_current:
  assumes "effects_current p0 (p, i)"
  shows "effects_current p0
     (p', run_animFAB_effect p' (run_visibility_effect p' (i\<lparr>state := st'\<rparr>)))"
  using assms
  by (auto simp: effects_current_def run_visibility_effect_def
      run_animFAB_effect_def Let_def
      intro: visibility_effect_cong animFAB_effect_cong)

lemma render_effects_current:
  assumes "effects_current p0 (p, i)" and "render p' (i\<lparr>state := st'\<rparr>) = Inr i'"
  shows "effects_current p0 (p', i')"
proof -
  have "i' = run_animFAB_effect p' (run_visibility_effect p' (i\<lparr>state := st'\<rparr>))"
    using assms(2) by (auto simp: render_eq split: if_splits)
  then show ?thesis using effects_run_current [OF assms(1)] by simp
qed

lemma mount_effects_current:
  assumes "mount p = Inr i"
  shows "effects_current p (p, i)"
proof -
  have "i = run_animFAB_effect p (run_visibility_effect p (first_render p))"
    using assms by (auto simp: mount_def render_eq split: if_splits)
  then show ?thesis
    by (simp add: effects_current_def first_render_def
        run_visibility_effect_def run_animFAB_effect_def Let_def)
qed

lemma step_effects_current:
  assumes "effects_current p0 c" and "step g c e = Inr c'"
  shows "effects_current p0 c'"
proof (cases c)
  case (Pair p i)
  show ?thesis
  proof (cases e)
    case (Rerender p')
    then obtain i' where r: "render p' i = Inr i'" and c': "c' = (p', i')"
      using assms(2) Pair by (auto split: sum.splits)
    from r have "render p' (i\<lparr>state := state i\<rparr>) = Inr i'" by simp
    from render_effects_current [OF _ this] assms(1) Pair c' show ?thesis by simp
  next
    case (TextLayout ev)
    then obtain st' i' where "onTextLayout g (state i) ev = Inr st'"
      and r: "render p (i\<lparr>state := st'\<rparr>) = Inr i'" and c': "c' = (p, i')"
      using assms(2) Pair by (auto split: sum.splits)
    from render_effects_current [OF _ r] assms(1) Pair c' show ?thesis by simp
  qed
qed

lemma run_effects_current:
  "effects_current p0 c \<Longrightarrow> run g c es = Inr c' \<Longrightarrow> effects_current p0 c'"
proof (induction es arbitrary: c)
  case Nil
  then show ?case by simp
next
  case (Cons e es)
  then obtain c1 where s: "step g c e = Inr c1" and r: "run g c1 es = Inr c'"
    by (auto split: sum.splits)
  from step_effects_current [OF Cons.prems(1) s] r show ?case
    by (rule Cons.IH)
qed

lemma mounted_effects_current:
  assumes "mounted g p0 es = Inr (p, i)"
  shows "effects_current p0 (p, i)"
proof -
  obtain i0 where m: "mount p0 = Inr i0" and r: "run g (p0, i0) es = Inr (p, i)"
    using assms by (auto simp: mounted_def split: sum.splits)
  from run_effects_current [OF mount_effects_current [OF m] r] show ?thesis .
qed

subsection \<open>Measured widths\<close>

lemma onTextLayout_returns:
  "lines (nativeEvent ev) \<noteq> [] \<Longrightarrow> \<exists>st'. onTextLayout g st ev = Inr st'"
  by (cases "lines (nativeEvent ev)") (simp_all add: onTextLayout_def Let_def)

lemma onTextLayout_textWidth_bound:
  assumes "onTextLayout g st ev = Inr st'" and "- 12 \<le> textWidth st"
    and "list_all (\<lambda>l. 0 \<le> width l) (lines (nativeEvent ev))"
  shows "- 12 \<le> textWidth st'"
proof -
  obtain l ls where l: "lines (nativeEvent ev) = l # ls"
    using assms(1) by (cases "lines (nativeEvent ev)") (simp_all add: onTextLayout_def)
  then have "0 \<le> width l" using assms(3) by simp
  then have "0 \<le> \<lceil>width l\<rceil>" by (simp add: ceiling_le_iff le_ceiling_iff)
  then have w: "(0::real) \<le> real_of_int \<lceil>width l\<rceil>" by simp
  have "textWidth st' = textWidth st \<or> textWidth st' = real_of_int \<lceil>width l\<rceil> - 12
      \<or> textWidth st' = real_of_int \<lceil>width l\<rceil>"
    using assms(1) l by (auto simp: onTextLayout_def Let_def split: if_splits)
  with w assms(2) show ?thesis by linarith
qed

lemma step_textWidth_bound:
  assumes "step g (p, i) e = Inr (p1, i1)" and "- 12 \<le> textWidth (state i)"
    and "measured_nonneg e"
  shows "- 12 \<le> textWidth (state i1)"
proof (cases e)
  case (Rerender q)
  then have "render q i = Inr i1" using assms(1) by (auto split: sum.splits)
  then show ?thesis using assms(2) by (simp add: state_render)
next
  case (TextLayout ev)
  then obtain st' where o: "onTextLayout g (state i) ev = Inr st'"
    and r: "render p (i\<lparr>state := st'\<rparr>) = Inr i1"
    using assms(1) by (auto split: sum.splits)
  from onTextLayout_textWidth_bound [OF o assms(2)] assms(3) TextLayout
  have "- 12 \<le> textWidth st'" by simp
  then show ?thesis using state_render [OF r] by simp
qed

lemma run_textWidth_bound:
  "run g (p, i) es = Inr (p', i') \<Longrightarrow> - 12 \<le> textWidth (state i)
   \<Longrightarrow> list_all measured_nonneg es \<Longrightarrow> - 12 \<le> textWidth (state i')"
proof (induction es arbitrary: p i)
  case Nil
  then show ?case by simp
next
  case (Cons e es)
  then obtain p1 i1 where s: "step g (p, i) e = Inr (p1, i1)"
    and r: "run g (p1, i1) es = Inr (p', i')"
    by (auto split: sum.splits)
  have "- 12 \<le> textWidth (state i1)"
    using step_textWidth_bound [OF s Cons.prems(2)] Cons.prems(3) by simp
  with Cons.IH [OF r] Cons.prems(3) show ?case by simp
qed

lemma mount_state: "mount p = Inr i \<Longrightarrow> state i = \<lparr>textWidth = 0, textHeight = 0\<rparr>"
  by (simp add: mount_def state_render first_render_def)

text \<open>
  In every state a mounted button reaches through measurements of non-negative
  width, \<open>textWidth + borderRadius\<close> is positive, so \<open>distance\<close> is not 0 and has
  the sign of its direction.
\<close>

lemma mounted_textWidth_positive:
  assumes "mounted g p0 es = Inr (p, i)" and "list_all measured_nonneg es"
  shows "0 < textWidth (state i) + borderRadius p"
proof -
  obtain i0 where m: "mount p0 = Inr i0" and r: "run g (p0, i0) es = Inr (p, i)"
    using assms(1) by (auto simp: mounted_def split: sum.splits)
  have "- 12 \<le> textWidth (state i0)"
    using mount_state [OF m] by simp
  from run_textWidth_bound [OF r this assms(2)]
  show ?thesis by (simp add: borderRadius_def SIZE_def)
qed

text \<open>
  Whatever is measured, after a render that returned the ranges were accepted:
  \<open>textWidth + borderRadius\<close> is not negative.
\<close>

lemma step_ranges_valid:
  assumes "step g c e = Inr (p, i)"
  shows "0 \<le> textWidth (state i) + borderRadius p"
  using assms by (cases c; cases e) (auto split: sum.splits dest: render_valid)

lemma run_ranges_valid:
  "run g (p, i) es = Inr (p', i') \<Longrightarrow> 0 \<le> textWidth (state i) + borderRadius p
   \<Longrightarrow> 0 \<le> textWidth (state i') + borderRadius p'"
proof (induction es arbitrary: p i)
  case Nil
  then show ?case by simp
next
  case (Cons e es)
  then obtain p1 i1 where s: "step g (p, i) e = Inr (p1, i1)"
    and r: "run g (p1, i1) es = Inr (p', i')"
    by (auto split: sum.splits)
  from Cons.IH [OF r step_ranges_valid [OF s]] show ?case .
qed

lemma mounted_ranges_valid:
  assumes "mounted g p0 es = Inr (p, i)"
  shows "0 \<le> textWidth (state i) + borderRadius p"
proof -
  obtain i0 where m: "mount p0 = Inr i0" and r: "run g (p0, i0) es = Inr (p, i)"
    using assms by (auto simp: mounted_def split: sum.splits)
  from m have "0 \<le> textWidth (state i0) + borderRadius p0"
    unfolding mount_def by (rule render_valid)
  from run_ranges_valid [OF r this] show ?thesis .
qed

text \<open>
  A run ends in an error only when a measurement has no line or a negative
  width: mounting always returns, and so does every run of measurements with a
  first line and non-negative widths.
\<close>

lemma step_returns:
  assumes "- 12 \<le> textWidth (state i)" and "measured_nonneg e" and "measured_line e"
  shows "\<exists>c1. step g (p, i) e = Inr c1"
proof (cases e)
  case (Rerender q)
  from render_returns [OF assms(1), of q] obtain i' where "render q i = Inr i'" ..
  then show ?thesis by (simp add: Rerender)
next
  case (TextLayout ev)
  then have "lines (nativeEvent ev) \<noteq> []" using assms(3) by simp
  then obtain st' where o: "onTextLayout g (state i) ev = Inr st'"
    using onTextLayout_returns by blast
  from onTextLayout_textWidth_bound [OF o assms(1)] assms(2) TextLayout
  have "- 12 \<le> textWidth (state (i\<lparr>state := st'\<rparr>))" by simp
  from render_returns [OF this, of p] obtain i' where "render p (i\<lparr>state := st'\<rparr>) = Inr i'" ..
  then show ?thesis by (simp add: TextLayout o)
qed

lemma run_returns:
  "- 12 \<le> textWidth (state i) \<Longrightarrow> list_all measured_nonneg es \<Longrightarrow> list_all measured_line es
   \<Longrightarrow> \<exists>c'. run g (p, i) es = Inr c'"
proof (induction es arbitrary: p i)
  case Nil
  then show ?case by simp
next
  case (Cons e es)
  have n: "measured_nonneg e" "measured_line e" "list_all measured_nonneg es"
    "list_all measured_line es"
    using Cons.prems by simp_all
  from step_returns [OF Cons.prems(1) n(1,2), of g p]
  obtain p1 i1 where s: "step g (p, i) e = Inr (p1, i1)" by auto
  have "- 12 \<le> textWidth (state i1)"
    by (rule step_textWidth_bound [OF s Cons.prems(1) n(1)])
  from Cons.IH [OF this n(3,4), of p1] obtain c' where "run g (p1, i1) es = Inr c'"
    by blast
  then show ?case by (simp add: s)
qed

lemma mounted_returns:
  assumes "list_all measured_nonneg es" and "list_all measured_line es"
  shows "\<exists>c. mounted g p0 es = Inr c"
proof -
  obtain i0 where m: "mount p0 = Inr i0" using mount_returns by blast
  have "- 12 \<le> textWidth (state i0)" using mount_state [OF m] by simp
  from run_returns [OF this assms] m show ?thesis by (simp add: mounted_def)
qed

lemma distance_sign:
  "0 < textWidth st + borderRadius p \<Longrightarrow>
   (if isAnimatedFromRight p then distance p st < 0 else 0 < distance p st)"
  by (simp add: distance_def)

subsection \<open>The example run\<close>

lemma example_mount:
  "mount example_props =
   Inr \<lparr>visibility = \<lparr>initial = 1, running = Some \<lparr>toValue = 1, duration = 200,
      useNativeDriver = True, easing = None\<rparr>\<rparr>,
    animFAB = \<lparr>initial = 0, running = Some \<lparr>toValue = - 16, duration = 150,
      useNativeDriver = True, easing = Some Linear\<rparr>\<rparr>,
    state = \<lparr>textWidth = 0, textHeight = 0\<rparr>,
    visibility_deps = Some (True, 1),
    animFAB_deps = Some (1, - 16, True)\<rparr>"
  by (simp add: mount_def first_render_def render_eq run_visibility_effect_def
      run_animFAB_effect_def Let_def example_props_def example_theme_def visible_of_def
      extended_of_def distance_def isAnimatedFromRight_def animateFrom_of_def borderRadius_def
      SIZE_def visibility_effect_def animFAB_effect_def)

lemma example_measurement:
  "onTextLayout example_globals \<lparr>textWidth = 0, textHeight = 0\<rparr> example_event
     = Inr example_state"
  by (simp add: onTextLayout_def example_globals_def example_event_def example_state_def
      isIOS_def)

lemma example_measured_run:
  "mounted example_globals example_props [TextLayout example_event]
     = Inr (example_props, example_measured)"
  apply (simp add: mounted_def example_mount example_measurement)
  apply (simp add: render_eq run_visibility_effect_def
      run_animFAB_effect_def Let_def example_props_def example_theme_def visible_of_def
      extended_of_def distance_def isAnimatedFromRight_def animateFrom_of_def borderRadius_def
      SIZE_def visibility_effect_def animFAB_effect_def example_state_def example_measured_def)
  done

lemma example_collapse:
  "render (example_props\<lparr>extended := Some False\<rparr>) example_measured = Inr example_collapsed"
  by (simp add: render_eq run_visibility_effect_def
      run_animFAB_effect_def Let_def example_props_def example_theme_def visible_of_def
      extended_of_def distance_def isAnimatedFromRight_def animateFrom_of_def borderRadius_def
      SIZE_def visibility_effect_def animFAB_effect_def example_state_def example_measured_def
      example_collapsed_def)

lemma example_hide:
  "render (example_props\<lparr>visible := Some False\<rparr>) example_measured = Inr example_hidden"
  by (simp add: render_eq run_visibility_effect_def
      run_animFAB_effect_def Let_def example_props_def example_theme_def visible_of_def
      extended_of_def distance_def isAnimatedFromRight_def animateFrom_of_def borderRadius_def
      SIZE_def visibility_effect_def animFAB_effect_def example_state_def example_measured_def
      example_hidden_def)

lemma run_snoc:
  "run g c (es @ [e]) = (case run g c es of Inl err \<Rightarrow> Inl err | Inr c' \<Rightarrow> step g c' e)"
  by (induction es arbitrary: c) (auto split: sum.splits)

lemma mounted_snoc:
  "mounted g p0 (es @ [e]) =
     (case mounted g p0 es of Inl err \<Rightarrow> Inl err | Inr c' \<Rightarrow> step g c' e)"
  by (simp add: mounted_def run_snoc split: sum.splits)

lemma example_collapsed_run:
  "mounted example_globals example_props
     [TextLayout example_event, Rerender (example_props\<lparr>extended := Some False\<rparr>)]
   = Inr (example_props\<lparr>extended := Some False\<rparr>, example_collapsed)"
  using mounted_snoc [of example_globals example_props "[TextLayout example_event]"
      "Rerender (example_props\<lparr>extended := Some False\<rparr>)"]
  by (simp add: example_measured_run example_collapse)

lemma example_hidden_run:
  "mounted example_globals example_props
     [TextLayout example_event, Rerender (example_props\<lparr>visible := Some False\<rparr>)]
   = Inr (example_props\<lparr>visible := Some False\<rparr>, example_hidden)"
  using mounted_snoc [of example_globals example_props "[TextLayout example_event]"
      "Rerender (example_props\<lparr>visible := Some False\<rparr>)"]
  by (simp add: example_measured_run example_hide)

text \<open>
  A measurement of width \<open>-20\<close> would turn the ranges around; the render after
  it throws and no effect runs.
\<close>

lemma negative_measurement_throws:
  "mounted example_globals example_props [TextLayout negative_event] = Inl InvalidRange"
  apply (simp add: mounted_def example_mount)
  apply (simp add: onTextLayout_def negative_event_def example_globals_def isIOS_def render_eq
      example_props_def example_theme_def borderRadius_def SIZE_def)
  done

text \<open>
  C1: after every render of a mounted button that returns, whatever props it
  was mounted and rendered with and whatever was measured in between, the
  timed animation in progress on \<open>animFAB\<close> goes to \<open>distance\<close> when \<open>extended\<close>
  is true and to 0 when it is false, lasts \<open>150 * theme.animation.scale\<close> and
  has linear easing. A run in which the handler or a render throws ends in an
  error and is not covered; \<open>mounted_returns\<close> shows that no run of
  measurements with a first line and non-negative widths does.
\<close>

theorem animFAB_driven_by_timing:
  assumes "mounted g p0 es = Inr (p, i)"
  shows "running (animFAB i) =
     Some \<lparr>toValue = (if extended_of p then distance p (state i) else 0),
           duration = 150 * scale (animation (theme p)),
           useNativeDriver = True, easing = Some Linear\<rparr>"
  using mounted_effects_current [OF assms]
  by (simp add: effects_current_def animFAB_effect_def)

theorem animFAB_driven_by_timing_witness:
  "mounted example_globals example_props [TextLayout example_event]
     = Inr (example_props, example_measured)
   \<and> running (animFAB example_measured) =
       Some \<lparr>toValue = - 107, duration = 150, useNativeDriver = True, easing = Some Linear\<rparr>
   \<and> mounted example_globals example_props
       [TextLayout example_event, Rerender (example_props\<lparr>extended := Some False\<rparr>)]
     = Inr (example_props\<lparr>extended := Some False\<rparr>, example_collapsed)
   \<and> running (animFAB example_collapsed) =
       Some \<lparr>toValue = 0, duration = 150, useNativeDriver = True, easing = Some Linear\<rparr>"
proof -
  have "running (animFAB example_measured) =
      Some \<lparr>toValue = - 107, duration = 150, useNativeDriver = True, easing = Some Linear\<rparr>"
    using animFAB_driven_by_timing [OF example_measured_run]
    by (simp add: example_measured_def)
  moreover have "running (animFAB example_collapsed) =
      Some \<lparr>toValue = 0, duration = 150, useNativeDriver = True, easing = Some Linear\<rparr>"
    using animFAB_driven_by_timing [OF example_collapsed_run]
    by (simp add: example_props_def example_theme_def extended_of_def)
  ultimately show ?thesis using example_measured_run example_collapsed_run by blast
qed

text \<open>
  C2: after every render of a mounted button that returns, the timed animation
  in progress on \<open>visibility\<close> goes to 1 in \<open>200 * theme.animation.scale\<close> when
  \<open>visible\<close> is true and to 0 in \<open>150 * theme.animation.scale\<close> when it is
  false; the value itself was constructed as 1 when the button was mounted
  visible and as 0 otherwise. A run in which the handler or a render throws
  ends in an error and is not covered.
\<close>

theorem visibility_driven_by_timing:
  assumes "mounted g p0 es = Inr (p, i)"
  shows "running (visibility i) =
     Some (if visible_of p
           then \<lparr>toValue = 1, duration = 200 * scale (animation (theme p)),
                 useNativeDriver = True, easing = None\<rparr>
           else \<lparr>toValue = 0, duration = 150 * scale (animation (theme p)),
                 useNativeDriver = True, easing = None\<rparr>)
   \<and> initial (visibility i) = (if visible_of p0 then 1 else 0)"
  using mounted_effects_current [OF assms]
  by (simp add: effects_current_def visibility_effect_def)

theorem visibility_driven_by_timing_witness:
  "mounted example_globals example_props [TextLayout example_event]
     = Inr (example_props, example_measured)
   \<and> running (visibility example_measured) =
       Some \<lparr>toValue = 1, duration = 200, useNativeDriver = True, easing = None\<rparr>
   \<and> initial (visibility example_measured) = 1
   \<and> mounted example_globals example_props
       [TextLayout example_event, Rerender (example_props\<lparr>visible := Some False\<rparr>)]
     = Inr (example_props\<lparr>visible := Some False\<rparr>, example_hidden)
   \<and> running (visibility example_hidden) =
       Some \<lparr>toValue = 0, duration = 150, useNativeDriver = True, easing = None\<rparr>
   \<and> initial (visibility example_hidden) = 1"
proof -
  have "running (visibility example_measured) =
      Some \<lparr>toValue = 1, duration = 200, useNativeDriver = True, easing = None\<rparr>
      \<and> initial (visibility example_measured) = 1"
    using visibility_driven_by_timing [OF example_measured_run]
    by (simp add: example_props_def example_theme_def visible_of_def)
  moreover have "running (visibility example_hidden) =
      Some \<lparr>toValue = 0, duration = 150, useNativeDriver = True, easing = None\<rparr>
      \<and> initial (visibility example_hidden) = 1"
    using visibility_driven_by_timing [OF example_hidden_run]
    by (simp add: example_props_def example_theme_def visible_of_def)
  ultimately show ?thesis using example_measured_run example_hidden_run by blast
qed

section \<open>Interpolated values at the ends of the transition\<close>

declare findRange_loop.simps [simp del]

lemma findRange_two: "findRange input [a, b] = 0"
  by (simp add: findRange_def findRange_loop.simps [of "Suc 0"])

lemma findRange_three: "findRange input [a, b, c] = (if input \<le> b then 0 else 1)"
  by (simp add: findRange_def findRange_loop.simps [of "Suc 0"]
      findRange_loop.simps [of "Suc (Suc 0)"])

lemma interpolate_two:
  "a \<le> b \<Longrightarrow>
   interpolate \<lparr>inputRange = [a, b], outputRange = [u, v]\<rparr> x =
     Inr (interpolate_segment x a b u v)"
  by (simp add: interpolate_def findRange_two)

lemma interpolate_three:
  "a \<le> b \<Longrightarrow> b \<le> c \<Longrightarrow>
   interpolate \<lparr>inputRange = [a, b, c], outputRange = [u, v, w]\<rparr> x =
     Inr (if x \<le> b then interpolate_segment x a b u v else interpolate_segment x b c v w)"
  by (simp add: interpolate_def findRange_three)

text \<open>
  An input range handed over in the wrong order is rejected: this is why the
  component reverses its ranges for the left direction.
\<close>

lemma interpolate_decreasing:
  "b < a \<Longrightarrow> interpolate \<lparr>inputRange = [a, b], outputRange = [u, v]\<rparr> x = Inl InvalidRange"
  by (simp add: interpolate_def)

text \<open>
  C6: in both directions the interpolated opacity of the label is 1 when
  \<open>animFAB\<close> equals \<open>distance\<close> and 0 for every value of \<open>animFAB\<close> between
  \<open>0.7 * distance\<close> and 0, both ends included, so in particular at 0. The
  hypothesis holds in every state a mounted button reaches
  (\<open>mounted_textWidth_positive\<close>).
\<close>

theorem label_opacity_values:
  assumes "0 < textWidth st + borderRadius p"
  shows "interpolate (label_opacity p st) (distance p st) = Inr 1
    \<and> (\<forall>a. min (0.7 * distance p st) 0 \<le> a \<and> a \<le> max (0.7 * distance p st) 0
          \<longrightarrow> interpolate (label_opacity p st) a = Inr 0)
    \<and> interpolate (label_opacity p st) 0 = Inr 0"
proof (cases "isAnimatedFromRight p")
  case True
  then have d: "distance p st < 0" using distance_sign [OF assms] by simp
  then have cfg: "label_opacity p st =
      \<lparr>inputRange = [distance p st, 0.7 * distance p st, 0], outputRange = [1, 0, 0]\<rparr>"
    using True by (simp add: label_opacity_def propForDirection_def)
  show ?thesis
    using d by (auto simp: cfg interpolate_three interpolate_segment_def)
next
  case False
  then have d: "0 < distance p st" using distance_sign [OF assms] by simp
  then have cfg: "label_opacity p st =
      \<lparr>inputRange = [0, 0.7 * distance p st, distance p st], outputRange = [0, 0, 1]\<rparr>"
    using False by (simp add: label_opacity_def propForDirection_def)
  show ?thesis
    using d by (auto simp: cfg interpolate_three interpolate_segment_def)
qed

theorem label_opacity_values_witness:
  "0 < textWidth example_state + borderRadius example_props
   \<and> distance example_props example_state = - 107
   \<and> interpolate (label_opacity example_props example_state) (- 107) = Inr 1
   \<and> interpolate (label_opacity example_props example_state) (- 74.9) = Inr 0
   \<and> interpolate (label_opacity example_props example_state) (- 30) = Inr 0
   \<and> interpolate (label_opacity example_props example_state) 0 = Inr 0"
proof -
  have h: "0 < textWidth example_state + borderRadius example_props"
    by (simp add: example_state_def example_props_def example_theme_def borderRadius_def SIZE_def)
  have d: "distance example_props example_state = - 107"
    by (simp add: example_state_def example_props_def example_theme_def borderRadius_def
        SIZE_def distance_def isAnimatedFromRight_def animateFrom_of_def)
  from label_opacity_values [OF h] have
    "interpolate (label_opacity example_props example_state)
       (distance example_props example_state) = Inr 1"
    "\<And>a. min (0.7 * distance example_props example_state) 0 \<le> a
        \<and> a \<le> max (0.7 * distance example_props example_state) 0
          \<Longrightarrow> interpolate (label_opacity example_props example_state) a = Inr 0"
    by blast+
  from this(1) this(2) [of "- 74.9"] this(2) [of "- 30"] this(2) [of 0] h d
  show ?thesis by simp
qed

text \<open>
  C7: in both directions the interpolated border radius of the icon circle's
  shadow is \<open>borderRadius\<close> at \<open>animFAB = 0\<close> and \<open>SIZE / (extendedWidth / SIZE)\<close>,
  that is \<open>56\<^sup>2 / extendedWidth\<close>, at \<open>animFAB = distance\<close>; its interpolated
  opacity is 1 at \<open>animFAB = 0\<close> and 0 at \<open>animFAB = distance\<close>. The hypothesis
  holds in every state a mounted button reaches.
\<close>

theorem circle_shadow_values:
  assumes "0 < textWidth st + borderRadius p"
  shows "interpolate (circle_shadow_borderRadius p st) 0 = Inr (borderRadius p)
    \<and> interpolate (circle_shadow_borderRadius p st) (distance p st)
        = Inr (SIZE / (extendedWidth p st / SIZE))
    \<and> SIZE / (extendedWidth p st / SIZE) = 56\<^sup>2 / extendedWidth p st
    \<and> interpolate (circle_shadow_opacity p st) 0 = Inr 1
    \<and> interpolate (circle_shadow_opacity p st) (distance p st) = Inr 0"
proof (cases "isAnimatedFromRight p")
  case True
  then have d: "distance p st < 0" using distance_sign [OF assms] by simp
  have r: "circle_shadow_borderRadius p st =
      \<lparr>inputRange = [distance p st, 0],
       outputRange = [SIZE / (extendedWidth p st / SIZE), borderRadius p]\<rparr>"
    and o: "circle_shadow_opacity p st =
      \<lparr>inputRange = [distance p st, 0.9 * distance p st, 0], outputRange = [0, 0.85, 1]\<rparr>"
    using True by (simp_all add: circle_shadow_borderRadius_def circle_shadow_opacity_def
        propForDirection_def)
  show ?thesis
    using d by (auto simp: r o interpolate_two interpolate_three interpolate_segment_def SIZE_def
        power2_eq_square)
next
  case False
  then have d: "0 < distance p st" using distance_sign [OF assms] by simp
  have r: "circle_shadow_borderRadius p st =
      \<lparr>inputRange = [0, distance p st],
       outputRange = [borderRadius p, SIZE / (extendedWidth p st / SIZE)]\<rparr>"
    and o: "circle_shadow_opacity p st =
      \<lparr>inputRange = [0, 0.9 * distance p st, distance p st], outputRange = [1, 0.85, 0]\<rparr>"
    using False by (simp_all add: circle_shadow_borderRadius_def circle_shadow_opacity_def
        propForDirection_def)
  show ?thesis
    using d by (auto simp: r o interpolate_two interpolate_three interpolate_segment_def SIZE_def
        power2_eq_square)
qed

theorem circle_shadow_values_witness:
  "0 < textWidth example_state + borderRadius (example_props\<lparr>animateFrom := Some FromLeft\<rparr>)
   \<and> distance (example_props\<lparr>animateFrom := Some FromLeft\<rparr>) example_state = 107
   \<and> interpolate (circle_shadow_borderRadius (example_props\<lparr>animateFrom := Some FromLeft\<rparr>)
        example_state) 0 = Inr 16
   \<and> interpolate (circle_shadow_borderRadius (example_props\<lparr>animateFrom := Some FromLeft\<rparr>)
        example_state) 107 = Inr (3136 / 163)
   \<and> interpolate (circle_shadow_opacity (example_props\<lparr>animateFrom := Some FromLeft\<rparr>)
        example_state) 0 = Inr 1
   \<and> interpolate (circle_shadow_opacity (example_props\<lparr>animateFrom := Some FromLeft\<rparr>)
        example_state) 107 = Inr 0"
proof -
  let ?p = "example_props\<lparr>animateFrom := Some FromLeft\<rparr>"
  have h: "0 < textWidth example_state + borderRadius ?p"
    by (simp add: example_state_def example_props_def example_theme_def borderRadius_def SIZE_def)
  have d: "distance ?p example_state = 107"
    by (simp add: example_state_def example_props_def example_theme_def borderRadius_def
        SIZE_def distance_def isAnimatedFromRight_def animateFrom_of_def)
  have b: "borderRadius ?p = 16" "SIZE / (extendedWidth ?p example_state / SIZE) = 3136 / 163"
    by (simp_all add: example_state_def example_props_def example_theme_def borderRadius_def
        SIZE_def extendedWidth_def)
  from circle_shadow_values [OF h] h d b show ?thesis by simp
qed

section \<open>What the targets and the styles depend on\<close>

lemma distance_cong:
  "animateFrom_of p1 = animateFrom_of p2 \<Longrightarrow> isV3 (theme p1) = isV3 (theme p2)
   \<Longrightarrow> textWidth st1 = textWidth st2 \<Longrightarrow> distance p1 st1 = distance p2 st2"
  by (simp add: distance_def isAnimatedFromRight_def borderRadius_def)

text \<open>
  C8, as stated, fails: with \<open>visible\<close>, \<open>extended\<close>, \<open>animateFrom\<close>,
  \<open>textWidth\<close> and the theme fixed, the derived styles still change with
  \<open>iconMode\<close> (the offset of the label) and, all props being equal, with
  \<open>Platform.OS\<close> (the elevation of the surface).
\<close>

theorem styles_depend_on_more:
  "visible_of example_props = visible_of (example_props\<lparr>iconMode := Some Dynamic\<rparr>)
   \<and> extended_of example_props = extended_of (example_props\<lparr>iconMode := Some Dynamic\<rparr>)
   \<and> animateFrom_of example_props = animateFrom_of (example_props\<lparr>iconMode := Some Dynamic\<rparr>)
   \<and> theme example_props = theme (example_props\<lparr>iconMode := Some Dynamic\<rparr>)
   \<and> s_label_offset (derived_styles example_getCombinedStyles example_globals example_props example_state)
       = 51
   \<and> s_label_offset (derived_styles example_getCombinedStyles example_globals
         (example_props\<lparr>iconMode := Some Dynamic\<rparr>) example_state) = 16
   \<and> derived_styles example_getCombinedStyles example_globals example_props example_state
       \<noteq> derived_styles example_getCombinedStyles example_globals
           (example_props\<lparr>iconMode := Some Dynamic\<rparr>) example_state
   \<and> s_elevation (derived_styles example_getCombinedStyles example_globals example_props example_state)
       = 0
   \<and> s_elevation (derived_styles example_getCombinedStyles (example_globals\<lparr>OS := Ios\<rparr>)
         example_props example_state) = 6
   \<and> derived_styles example_getCombinedStyles example_globals example_props example_state
       \<noteq> derived_styles example_getCombinedStyles (example_globals\<lparr>OS := Ios\<rparr>)
           example_props example_state"
  by (simp add: derived_styles_def label_offset_def isIconStatic_def iconMode_of_def
      example_props_def example_theme_def example_state_def borderRadius_def SIZE_def
      visible_of_def extended_of_def animateFrom_of_def surface_elevation_def isIOS_def
      example_globals_def)

text \<open>
  C8, amended: the target of \<open>visibility\<close> is 1 or 0 as \<open>visible\<close> is true or
  false and the target of \<open>animFAB\<close> is \<open>distance\<close> or 0 as \<open>extended\<close> is true
  or false; two evaluations that agree on \<open>visible\<close>, \<open>extended\<close>,
  \<open>animateFrom\<close>, \<open>textWidth\<close> and the theme have the same targets, and when
  they also agree on \<open>iconMode\<close>, \<open>textHeight\<close>, \<open>uppercase\<close>, \<open>disabled\<close>,
  on whether the platform is iOS and on the layout direction, they have the
  same derived styles (colours aside).
\<close>

theorem targets_and_styles_determined:
  assumes "visible_of p1 = visible_of p2" and "extended_of p1 = extended_of p2"
    and "animateFrom_of p1 = animateFrom_of p2" and "textWidth st1 = textWidth st2"
    and "theme p1 = theme p2"
  shows "visibility_target p1 = (if visible_of p1 then 1 else 0)
    \<and> animFAB_target p1 st1 = (if extended_of p1 then distance p1 st1 else 0)
    \<and> visibility_target p1 = visibility_target p2
    \<and> animFAB_target p1 st1 = animFAB_target p2 st2
    \<and> (iconMode_of p1 = iconMode_of p2 \<and> textHeight st1 = textHeight st2
        \<and> uppercase_of p1 = uppercase_of p2
        \<and> (disabled p1 = Some True) = (disabled p2 = Some True)
        \<and> isIOS g1 = isIOS g2 \<and> isRTL g1 = isRTL g2
        \<longrightarrow> derived_styles getCombinedStyles g1 p1 st1
            = derived_styles getCombinedStyles g2 p2 st2)"
proof -
  have d: "distance p1 st1 = distance p2 st2"
    using assms by (intro distance_cong) simp_all
  have b: "borderRadius p1 = borderRadius p2" "isAnimatedFromRight p1 = isAnimatedFromRight p2"
    using assms by (simp_all add: borderRadius_def isAnimatedFromRight_def)
  have t: "visibility_target p1 = (if visible_of p1 then 1 else 0)"
    "animFAB_target p1 st1 = (if extended_of p1 then distance p1 st1 else 0)"
    "visibility_target p1 = visibility_target p2"
    "animFAB_target p1 st1 = animFAB_target p2 st2"
    using assms d
    by (simp_all add: visibility_target_def animFAB_target_def visibility_effect_def
        animFAB_effect_def)
  have s: "derived_styles getCombinedStyles g1 p1 st1 = derived_styles getCombinedStyles g2 p2 st2"
    if "iconMode_of p1 = iconMode_of p2" "textHeight st1 = textHeight st2"
      "uppercase_of p1 = uppercase_of p2" "(disabled p1 = Some True) = (disabled p2 = Some True)"
      "isIOS g1 = isIOS g2" "isRTL g1 = isRTL g2"
    using that assms d b
    by (simp add: derived_styles_def surface_elevation_def fab_scaleY_def extendedWidth_def
        extended_shadow_opacity_def circle_shadow_opacity_def circle_shadow_borderRadius_def
        label_side_def label_offset_def label_top_def label_opacity_def label_translateX_def
        propForDirection_def isIconStatic_def)
  from t s show ?thesis by blast
qed

theorem targets_and_styles_determined_witness:
  "visible_of example_props = visible_of (example_props\<lparr>label := ''Compose'', visible := None\<rparr>)
   \<and> visibility_target example_props = 1
   \<and> visibility_target (example_props\<lparr>label := ''Compose'', visible := None\<rparr>) = 1
   \<and> animFAB_target example_props example_state = - 107
   \<and> animFAB_target (example_props\<lparr>label := ''Compose'', visible := None\<rparr>) example_state
       = - 107
   \<and> isIOS example_globals = isIOS (example_globals\<lparr>OS := Web\<rparr>)
   \<and> derived_styles example_getCombinedStyles example_globals example_props example_state
       = derived_styles example_getCombinedStyles (example_globals\<lparr>OS := Web\<rparr>)
           (example_props\<lparr>label := ''Compose'', visible := None\<rparr>) example_state"
proof -
  let ?q = "example_props\<lparr>label := ''Compose'', visible := None\<rparr>"
  let ?g = "example_globals\<lparr>OS := Web\<rparr>"
  have h: "visible_of example_props = visible_of ?q" "extended_of example_props = extended_of ?q"
    "animateFrom_of example_props = animateFrom_of ?q" "theme example_props = theme ?q"
    by (simp_all add: example_props_def visible_of_def extended_of_def animateFrom_of_def)
  have k: "iconMode_of example_props = iconMode_of ?q \<and> textHeight example_state = textHeight example_state
        \<and> uppercase_of example_props = uppercase_of ?q
        \<and> (disabled example_props = Some True) = (disabled ?q = Some True)
        \<and> isIOS example_globals = isIOS ?g \<and> isRTL example_globals = isRTL ?g"
    by (simp add: example_props_def iconMode_of_def uppercase_of_def example_globals_def
        isIOS_def)
  have v: "visible_of example_props" "extended_of example_props"
    "distance example_props example_state = - 107"
    by (simp_all add: example_state_def example_props_def example_theme_def borderRadius_def
        SIZE_def distance_def isAnimatedFromRight_def animateFrom_of_def visible_of_def
        extended_of_def)
  note T = targets_and_styles_determined [OF h(1,2,3) refl h(4),
      of example_state example_globals ?g example_getCombinedStyles]
  from T have a: "visibility_target example_props = (if visible_of example_props then 1 else 0)"
    and b: "animFAB_target example_props example_state =
        (if extended_of example_props then distance example_props example_state else 0)"
    and c: "visibility_target example_props = visibility_target ?q"
    and d: "animFAB_target example_props example_state = animFAB_target ?q example_state"
    by blast+
  from T k have e: "derived_styles example_getCombinedStyles example_globals example_props example_state
       = derived_styles example_getCombinedStyles ?g ?q example_state"
    by blast
  have a': "visibility_target example_props = 1" using a v(1) by simp
  have b': "animFAB_target example_props example_state = - 107" using b v(2,3) by simp
  from a' b' c d e h(1) k show ?thesis by metis
qed

section \<open>Margins and colours of the drawer item\<close>

text \<open>
  C10, as stated, fails: an icon can be given and the margin still be 0. The
  component tests the icon for truthiness, and an icon given by name as the
  empty string is falsy: under a version 3 theme its margin is 0, not 12.
\<close>

theorem DrawerItem_labelMargin_empty_icon:
  "di_icon (example_item\<lparr>di_icon := Some []\<rparr>) = Some []
   \<and> isV3 (di_theme (example_item\<lparr>di_icon := Some []\<rparr>))
   \<and> example_truthy [] = False
   \<and> DrawerItem_labelMargin example_truthy (example_item\<lparr>di_icon := Some []\<rparr>) = 0
   \<and> DrawerItem_labelMargin example_truthy (example_item\<lparr>di_icon := Some []\<rparr>) \<noteq> 12"
  by (simp add: DrawerItem_labelMargin_def di_icon_truthy_def example_item_def
      example_theme_def example_truthy_def)

text \<open>
  C10, amended: the label margin of a drawer item is 0 when no icon is given
  or the given icon is falsy, and when a truthy icon is given it is 12 under a
  version 3 theme and 32 otherwise; the background colour is \<open>'transparent'\<close>
  whenever the item is not active.
\<close>

theorem DrawerItem_labelMargin_backgroundColor:
  "(di_icon p = None \<longrightarrow> DrawerItem_labelMargin truthy p = 0)
   \<and> (\<forall>i. di_icon p = Some i \<and> \<not> truthy i \<longrightarrow> DrawerItem_labelMargin truthy p = 0)
   \<and> (\<forall>i. di_icon p = Some i \<and> truthy i
        \<longrightarrow> DrawerItem_labelMargin truthy p = (if isV3 (di_theme p) then 12 else 32))
   \<and> (di_active p \<noteq> Some True \<longrightarrow> DrawerItem_backgroundColor color p = ''transparent'')"
  by (simp add: DrawerItem_labelMargin_def di_icon_truthy_def DrawerItem_backgroundColor_def
      di_active_truthy_def)

theorem DrawerItem_labelMargin_backgroundColor_witness:
  "di_icon example_item = Some ''star''
   \<and> example_truthy ''star''
   \<and> DrawerItem_labelMargin example_truthy example_item = 12
   \<and> DrawerItem_labelMargin example_truthy
        (example_item\<lparr>di_theme := example_theme\<lparr>isV3 := False\<rparr>\<rparr>) = 32
   \<and> DrawerItem_labelMargin example_truthy (example_item\<lparr>di_icon := None\<rparr>) = 0
   \<and> example_truthy [] = False
   \<and> DrawerItem_labelMargin example_truthy (example_item\<lparr>di_icon := Some []\<rparr>) = 0
   \<and> di_active example_item \<noteq> Some True
   \<and> DrawerItem_backgroundColor example_color example_item = ''transparent''
   \<and> DrawerItem_backgroundColor example_color (example_item\<lparr>di_active := Some False\<rparr>)
       = ''transparent''"
proof -
  have i: "di_icon example_item = Some ''star''" "example_truthy ''star''"
    "di_active example_item \<noteq> Some True"
    "di_icon (example_item\<lparr>di_theme := example_theme\<lparr>isV3 := False\<rparr>\<rparr>) = Some ''star''"
    "di_icon (example_item\<lparr>di_icon := None\<rparr>) = None"
    "di_icon (example_item\<lparr>di_icon := Some []\<rparr>) = Some []"
    "example_truthy [] = False"
    "di_active (example_item\<lparr>di_active := Some False\<rparr>) \<noteq> Some True"
    "isV3 (di_theme example_item)"
    "\<not> isV3 (di_theme (example_item\<lparr>di_theme := example_theme\<lparr>isV3 := False\<rparr>\<rparr>))"
    by (simp_all add: example_item_def example_theme_def example_truthy_def)
  from DrawerItem_labelMargin_backgroundColor [of example_item example_truthy example_color]
    DrawerItem_labelMargin_backgroundColor
      [of "example_item\<lparr>di_theme := example_theme\<lparr>isV3 := False\<rparr>\<rparr>" example_truthy
        example_color]
    DrawerItem_labelMargin_backgroundColor
      [of "example_item\<lparr>di_icon := None\<rparr>" example_truthy example_color]
    DrawerItem_labelMargin_backgroundColor
      [of "example_item\<lparr>di_icon := Some []\<rparr>" example_truthy example_color]
    DrawerItem_labelMargin_backgroundColor
      [of "example_item\<lparr>di_active := Some False\<rparr>" example_truthy example_color]
    i
  show ?thesis by simp
qed

end
